theory Spec2Isabelle
  imports Complex_Main "HOL-Library.Monad_Syntax"
begin

section \<open>The black-hole fragment shader over the real numbers\<close>

text \<open>
  The fragment shader of \<^verbatim>\<open>BlackHole\<close> (the GLSL string of the component) is embedded
  function by function. A GLSL \<^verbatim>\<open>float\<close> is read as a real number and the arithmetic
  is exact: rounding of results is not part of the model. The one constant whose rounding
  decides a branch, the critical impact factor, has its 32-bit value. Operations whose result the GLSL ES specification leaves undefined
  (a division by zero, the square root of a negative number, a power of a negative base
  or of zero with a non-positive exponent) return \<open>None\<close>; every function that uses one
  of them is written in the option monad, so an undefined intermediate value makes the
  whole result undefined.
\<close>

subsection \<open>Vectors\<close>

datatype vec2 = Vec2 (v2x: real) (v2y: real)

datatype vec3 = Vec3 (vx: real) (vy: real) (vz: real)

datatype vec4 = Vec4 (v4x: real) (v4y: real) (v4z: real) (v4w: real)

text \<open>Componentwise \<^verbatim>\<open>a + b\<close>, \<^verbatim>\<open>-a\<close>, \<^verbatim>\<open>a * s\<close> and \<^verbatim>\<open>a + s\<close> on \<^verbatim>\<open>vec3\<close>.\<close>

definition vadd :: "vec3 \<Rightarrow> vec3 \<Rightarrow> vec3" where
  "vadd a b = Vec3 (vx a + vx b) (vy a + vy b) (vz a + vz b)"

definition vneg :: "vec3 \<Rightarrow> vec3" where
  "vneg a = Vec3 (- vx a) (- vy a) (- vz a)"

definition vscale :: "vec3 \<Rightarrow> real \<Rightarrow> vec3" where
  "vscale a s = Vec3 (vx a * s) (vy a * s) (vz a * s)"

definition vadds :: "vec3 \<Rightarrow> real \<Rightarrow> vec3" where
  "vadds a s = Vec3 (vx a + s) (vy a + s) (vz a + s)"

definition dot :: "vec3 \<Rightarrow> vec3 \<Rightarrow> real" where
  "dot a b = vx a * vx b + vy a * vy b + vz a * vz b"

definition cross :: "vec3 \<Rightarrow> vec3 \<Rightarrow> vec3" where
  "cross a b = Vec3 (vy a * vz b - vz a * vy b)
                    (vz a * vx b - vx a * vz b)
                    (vx a * vy b - vy a * vx b)"

definition length3 :: "vec3 \<Rightarrow> real" where
  "length3 a = sqrt (vx a * vx a + vy a * vy a + vz a * vz a)"

definition length2 :: "vec2 \<Rightarrow> real" where
  "length2 a = sqrt (v2x a * v2x a + v2y a * v2y a)"

definition vfloor :: "vec3 \<Rightarrow> vec3" where
  "vfloor a = Vec3 (of_int \<lfloor>vx a\<rfloor>) (of_int \<lfloor>vy a\<rfloor>) (of_int \<lfloor>vz a\<rfloor>)"

definition fract :: "real \<Rightarrow> real" where
  "fract x = x - of_int \<lfloor>x\<rfloor>"

definition vfract :: "vec3 \<Rightarrow> vec3" where
  "vfract a = Vec3 (fract (vx a)) (fract (vy a)) (fract (vz a))"

subsection \<open>Scalar built-ins\<close>

text \<open>\<^verbatim>\<open>a / b\<close>: undefined when the denominator is zero.\<close>

definition gdiv :: "real \<Rightarrow> real \<Rightarrow> real option" where
  "gdiv a b = (if b = 0 then None else Some (a / b))"

text \<open>\<^verbatim>\<open>sqrt(x)\<close>: undefined for negative \<open>x\<close>.\<close>

definition gsqrt :: "real \<Rightarrow> real option" where
  "gsqrt x = (if x < 0 then None else Some (sqrt x))"

text \<open>\<^verbatim>\<open>pow(x, y)\<close>: undefined for \<open>x < 0\<close>, and for \<open>x = 0\<close> with \<open>y \<le> 0\<close>.\<close>

definition gpow :: "real \<Rightarrow> real \<Rightarrow> real option" where
  "gpow x y = (if x < 0 \<or> (x = 0 \<and> y \<le> 0) then None else Some (x powr y))"

definition clamp :: "real \<Rightarrow> real \<Rightarrow> real \<Rightarrow> real" where
  "clamp x lo hi = min (max x lo) hi"

definition mix :: "real \<Rightarrow> real \<Rightarrow> real \<Rightarrow> real" where
  "mix a b t = a * (1 - t) + b * t"

definition vmix :: "vec3 \<Rightarrow> vec3 \<Rightarrow> real \<Rightarrow> vec3" where
  "vmix a b t = Vec3 (mix (vx a) (vx b) t) (mix (vy a) (vy b) t) (mix (vz a) (vz b) t)"

text \<open>
  \<^verbatim>\<open>smoothstep(edge0, edge1, x)\<close> by its defining formula
  \<^verbatim>\<open>t = clamp((x - edge0) / (edge1 - edge0), 0.0, 1.0); t * t * (3.0 - 2.0 * t)\<close>.
  The shader calls it with descending edges as well, and the formula is used for those
  calls too.
\<close>

definition smoothstep :: "real \<Rightarrow> real \<Rightarrow> real \<Rightarrow> real option" where
  "smoothstep edge0 edge1 x = do {
     q \<leftarrow> gdiv (x - edge0) (edge1 - edge0);
     let t = clamp q 0 1;
     Some (t * t * (3 - 2 * t))
   }"

text \<open>\<^verbatim>\<open>normalize(v)\<close> divides every component by the length of \<open>v\<close>.\<close>

definition normalize :: "vec3 \<Rightarrow> vec3 option" where
  "normalize a = do {
     x \<leftarrow> gdiv (vx a) (length3 a);
     y \<leftarrow> gdiv (vy a) (length3 a);
     z \<leftarrow> gdiv (vz a) (length3 a);
     Some (Vec3 x y z)
   }"

subsection \<open>Uniforms\<close>

record uniforms =
  iTime :: real
  iResolution :: vec3
  rs :: real
  camDistance :: real
  diskInner :: real
  diskOuter :: real

subsection \<open>Tone mapping\<close>

text \<open>
  The last step of \<^verbatim>\<open>main\<close>, \<^verbatim>\<open>col = col / (col + 1.0)\<close>, divides componentwise;
  \<open>toneMapChannel\<close> is what it does to one channel. The quotient is the exact one: that
  \<^verbatim>\<open>x + 1.0\<close> rounds to \<open>x\<close> for large 32-bit values is not modelled.
\<close>

definition toneMapChannel :: "real \<Rightarrow> real option" where
  "toneMapChannel x = gdiv x (x + 1)"

definition toneMap :: "vec3 \<Rightarrow> vec3 option" where
  "toneMap col = do {
     r \<leftarrow> toneMapChannel (vx col);
     g \<leftarrow> toneMapChannel (vy col);
     b \<leftarrow> toneMapChannel (vz col);
     Some (Vec3 r g b)
   }"

subsection \<open>Pseudo-random hash and starfield\<close>

definition hash13 :: "vec3 \<Rightarrow> real" where
  "hash13 p0 =
     (let p = vfract (vadd (vscale p0 0.3183099) (Vec3 0.1 0.2 0.3));
          p' = vadds p (dot p (vadds (Vec3 (vy p) (vz p) (vx p)) 19.19))
      in fract (vx p' * vy p' * vz p'))"

definition rotateAround :: "vec3 \<Rightarrow> vec3 \<Rightarrow> real \<Rightarrow> vec3" where
  "rotateAround v axis angle =
     (let c = cos angle; s = sin angle
      in vadd (vadd (vscale v c) (vscale (cross axis v) s))
              (vscale (vscale axis (dot axis v)) (1 - c)))"

definition starfield :: "vec3 \<Rightarrow> vec3 option" where
  "starfield dir = do {
     nd \<leftarrow> normalize dir;
     let p = vscale nd 123;
     d \<leftarrow> smoothstep 0.995 1 (hash13 (vfloor (vscale p 20)));
     m \<leftarrow> gpow d 24;
     let col = vscale (Vec3 (0.6 + 0.4 * hash13 (vadds p 1)) (0.7 + 0.3 * hash13 (vadds p 2)) 1) m;
     let n = hash13 (vfloor (vscale dir 10));
     Some (vadd col (vscale (Vec3 0.02 0.01 0.03) n))
   }"

subsection \<open>Accretion disk\<close>

text \<open>
  The Doppler factor of \<^verbatim>\<open>diskColor\<close>:
  \<^verbatim>\<open>pow((1.0 - v * cosTheta) / sqrt(1.0 - v*v), -3.0)\<close>.
\<close>

definition doppler :: "real \<Rightarrow> real \<Rightarrow> real option" where
  "doppler v cosTheta = do {
     s \<leftarrow> gsqrt (1 - v * v);
     q \<leftarrow> gdiv (1 - v * cosTheta) s;
     gpow q (- 3)
   }"

definition diskColor :: "uniforms \<Rightarrow> vec3 \<Rightarrow> vec3 \<Rightarrow> vec3 option" where
  "diskColor u pos dir =
     (let r = length2 (Vec2 (vx pos) (vz pos)) in
      if r < diskInner u \<or> r > diskOuter u then Some (Vec3 0 0 0)
      else do {
        q \<leftarrow> gdiv (rs u) (2 * r);
        sq \<leftarrow> gsqrt q;
        let v = clamp sq 0 0.6;
        tangential \<leftarrow> normalize (Vec3 (- vz pos) 0 (vx pos));
        let cosTheta = dot tangential (vneg dir);
        dop \<leftarrow> doppler v cosTheta;
        tq \<leftarrow> gdiv (diskOuter u - r) (diskOuter u - diskInner u);
        let t = clamp tq 0 1;
        pt \<leftarrow> gpow t 0.6;
        let base = vmix (Vec3 0.8 0.4 0.1) (Vec3 1 0.95 0.85) pt;
        Some (vscale (vscale base dop) 0.6)
      })"

subsection \<open>Ray bending and disk intersection\<close>

text \<open>
  The literal \<^verbatim>\<open>2.59807621135\<close> as the shader holds it: a \<^verbatim>\<open>highp float\<close> of 32 bits, the
  multiple \<open>10897121 / 2\<^sup>2\<^sup>2 = 2.598076105117798\<close> of the unit in the last place \<open>2\<^sup>-\<^sup>2\<^sup>2\<close> that is
  nearest to the decimal.
\<close>

abbreviation bc32 :: real where
  "bc32 \<equiv> 10897121 / 4194304"

text \<open>
  \<^verbatim>\<open>bendRay\<close> returns the direction together with the \<^verbatim>\<open>out float capture\<close>.
\<close>

definition bendRay :: "vec3 \<Rightarrow> vec3 \<Rightarrow> real \<Rightarrow> (vec3 \<times> real) option" where
  "bendRay ro rd rs_local =
     (let b = length3 (cross ro rd);
          bc = bc32 * rs_local
      in if b < bc then Some (rd, 1)
         else do {
           alpha \<leftarrow> gdiv (2 * rs_local) (max b 0.00001);
           axis \<leftarrow> normalize (cross ro rd);
           Some (rotateAround rd axis alpha, 0)
         })"

text \<open>
  \<^verbatim>\<open>intersectDisk\<close>: \<open>Some None\<close> is \<^verbatim>\<open>return false\<close>, \<open>Some (Some hit)\<close> is
  \<^verbatim>\<open>return true\<close> with the \<^verbatim>\<open>out vec3 hit\<close>, and \<open>None\<close> is the undefined quotient.
\<close>

definition intersectDisk :: "vec3 \<Rightarrow> vec3 \<Rightarrow> vec3 option option" where
  "intersectDisk ro rd = do {
     t \<leftarrow> gdiv (- vy ro) (vy rd + 0.000001);
     if t \<le> 0 then Some None
     else Some (Some (vadd ro (vscale rd t)))
   }"

subsection \<open>The pixel shader\<close>

text \<open>
  \<^verbatim>\<open>main\<close> is embedded in stages: \<open>pixelUV\<close> is the mapping of \<^verbatim>\<open>gl_FragCoord.xy\<close>
  to aspect-corrected coordinates, \<open>shadow\<close> the body of the captured branch,
  \<open>redshift\<close> the gravitational redshift factor, \<open>diskLayer\<close> the intersection with the
  disk plane and the blending of the disk over the background, and \<open>finish\<close> the
  photon-ring glow, the vignette and the tone mapping.
\<close>

definition pixelUV :: "uniforms \<Rightarrow> vec2 \<Rightarrow> vec2 option" where
  "pixelUV u fragCoord = do {
     px \<leftarrow> gdiv (v2x fragCoord) (vx (iResolution u));
     py \<leftarrow> gdiv (v2y fragCoord) (vy (iResolution u));
     aspect \<leftarrow> gdiv (vx (iResolution u)) (vy (iResolution u));
     Some (Vec2 ((px * 2 - 1) * aspect) (py * 2 - 1))
   }"

definition v4scale :: "vec4 \<Rightarrow> real \<Rightarrow> vec4" where
  "v4scale a s = Vec4 (v4x a * s) (v4y a * s) (v4z a * s) (v4w a * s)"

definition shadow :: "uniforms \<Rightarrow> vec3 \<Rightarrow> vec3 \<Rightarrow> vec4 option" where
  "shadow u ro rd =
     (let b = length3 (cross ro rd);
          bc = bc32 * rs u
      in do {
        edge \<leftarrow> smoothstep (bc * 0.9) (bc * 1.05) b;
        Some (v4scale (Vec4 0 0 0 1) (1 - (1 - edge) * 0.06))
      })"

definition redshift :: "real \<Rightarrow> real \<Rightarrow> real option" where
  "redshift rs_local r = do {
     q \<leftarrow> gdiv rs_local (max r 0.001);
     gsqrt (max (1 - q) 0.0001)
   }"

text \<open>
  In \<open>diskLayer\<close> the case \<open>None\<close> is the zero denominator of \<^verbatim>\<open>intersectDisk\<close>. When the
  numerator \<^verbatim>\<open>-ro.y\<close> is zero as well, the quotient 0/0 is not a number: the test
  \<^verbatim>\<open>t <= 0.0\<close> fails, \<^verbatim>\<open>intersectDisk\<close> returns true with a hit that is not a number, the
  test \<^verbatim>\<open>r > 1.05 * rs\<close> fails on its radius and the background is kept. With a nonzero
  numerator the result stays undefined.
\<close>

definition diskLayer :: "uniforms \<Rightarrow> vec3 \<Rightarrow> vec3 \<Rightarrow> vec3 \<Rightarrow> vec3 option" where
  "diskLayer u ro rd2 bg =
     (case intersectDisk ro rd2 of
        None \<Rightarrow> if - vy ro = 0 then Some bg else None
      | Some None \<Rightarrow> Some bg
      | Some (Some hit) \<Rightarrow>
          (let r = length2 (Vec2 (vx hit) (vz hit)) in
           if r > 1.05 * rs u then do {
             dcol \<leftarrow> diskColor u hit rd2;
             z \<leftarrow> redshift (rs u) r;
             let dcol' = vscale dcol z;
             a \<leftarrow> smoothstep (diskOuter u) (diskInner u) r;
             let alpha = a * 0.85;
             Some (vmix bg dcol' alpha)
           }
           else Some bg))"

definition finish :: "uniforms \<Rightarrow> vec3 \<Rightarrow> vec3 \<Rightarrow> vec2 \<Rightarrow> vec3 \<Rightarrow> vec4 option" where
  "finish u ro rd uv col0 =
     (let b = length3 (cross ro rd);
          bc = bc32 * rs u;
          ring = exp (- 30 * \<bar>b - bc\<bar>);
          col1 = vadd col0 (vscale (vscale (Vec3 1 0.9 0.7) ring) 0.35)
      in do {
        vig \<leftarrow> smoothstep 1.4 0.1 (length2 uv);
        let col2 = vscale col1 (mix 0.6 1 vig);
        col3 \<leftarrow> toneMap col2;
        Some (Vec4 (vx col3) (vy col3) (vz col3) 1)
      })"

definition main :: "uniforms \<Rightarrow> vec2 \<Rightarrow> vec4 option" where
  "main u fragCoord = do {
     uv \<leftarrow> pixelUV u fragCoord;
     let ro = Vec3 0 0 (camDistance u);
     rd \<leftarrow> normalize (Vec3 (v2x uv) (v2y uv) (- 1.5));
     (rd2, captured) \<leftarrow> bendRay ro rd (rs u);
     if captured > 0.5 then shadow u ro rd
     else do {
       bg \<leftarrow> starfield rd2;
       col \<leftarrow> diskLayer u ro rd2 bg;
       finish u ro rd uv col
     }
   }"

subsection \<open>The direction towards the black hole\<close>

text \<open>
  Used to state where \<^verbatim>\<open>bendRay\<close> turns a ray: for a unit direction \<open>rd\<close>, the point of
  the line \<open>ro + t rd\<close> closest to the origin, where the black hole is, is
  \<open>ro - (ro \<cdot> rd) rd\<close>, at distance \<open>b = |ro \<times> rd|\<close>. \<open>towardHole ro rd\<close> is the unit vector
  from that point to the origin; it is perpendicular to \<open>rd\<close>.
\<close>

definition towardHole :: "vec3 \<Rightarrow> vec3 \<Rightarrow> vec3" where
  "towardHole ro rd = vscale (vadd (vscale rd (dot ro rd)) (vneg ro)) (1 / length3 (cross ro rd))"

section \<open>Properties\<close>

subsection \<open>Capture\<close>




subsection \<open>Resolution\<close>

lemma gdiv_scale: "k \<noteq> 0 \<Longrightarrow> gdiv (k * a) (k * b) = gdiv a b"
  by (simp add: gdiv_def)

lemma pixelUV_scale:
  assumes "k \<noteq> 0"
  shows "pixelUV (u\<lparr>iResolution := Vec3 (k * vx (iResolution u)) (k * vy (iResolution u)) w\<rparr>)
           (Vec2 (k * v2x fc) (k * v2y fc)) = pixelUV u fc"
  using assms by (simp add: pixelUV_def gdiv_scale)

lemma diskColor_res: "diskColor (u\<lparr>iResolution := r\<rparr>) = diskColor u"
  by (intro ext) (simp add: diskColor_def cong: if_cong)

lemma shadow_res: "shadow (u\<lparr>iResolution := r\<rparr>) = shadow u"
  by (intro ext) (simp add: shadow_def)

lemma diskLayer_res: "diskLayer (u\<lparr>iResolution := r\<rparr>) = diskLayer u"
  by (intro ext) (simp add: diskLayer_def diskColor_res cong: if_cong option.case_cong)

lemma finish_res: "finish (u\<lparr>iResolution := r\<rparr>) = finish u"
  by (intro ext) (simp add: finish_def)

lemma main_pixelUV:
  assumes "pixelUV u' fc' = pixelUV u fc" "rs u' = rs u" "camDistance u' = camDistance u"
    "shadow u' = shadow u" "diskLayer u' = diskLayer u" "finish u' = finish u"
  shows "main u' fc' = main u fc"
  unfolding main_def assms ..

text \<open>
  C10. Scaling the resolution uniformly by a factor \<open>k \<noteq> 0\<close> (from 800 by 600 to 1600 by
  1200, \<open>k = 2\<close>) and evaluating the pixel shader at the same proportional position of the
  screen, with all other uniforms equal, gives the identical output, defined or not.
\<close>

theorem main_resolution_invariant:
  assumes "k \<noteq> 0"
    and "iResolution u' = Vec3 (k * vx (iResolution u)) (k * vy (iResolution u)) w"
    and "u' = u\<lparr>iResolution := iResolution u'\<rparr>"
    and "v2x fc' / vx (iResolution u') = v2x fc / vx (iResolution u)"
    and "v2y fc' / vy (iResolution u') = v2y fc / vy (iResolution u)"
    and "vx (iResolution u) \<noteq> 0" "vy (iResolution u) \<noteq> 0"
  shows "main u' fc' = main u fc"
proof -
  let ?r = "iResolution u"
  have fx: "v2x fc' = k * v2x fc" using assms(1,2,4,6) by (simp add: field_simps)
  have fy: "v2y fc' = k * v2y fc" using assms(1,2,5,7) by (simp add: field_simps)
  have fc': "fc' = Vec2 (k * v2x fc) (k * v2y fc)" using fx fy by (cases fc') simp
  have u': "u' = u\<lparr>iResolution := Vec3 (k * vx ?r) (k * vy ?r) w\<rparr>"
    using assms(2,3) by simp
  have "pixelUV u' fc' = pixelUV u fc"
    unfolding u' fc' using assms(1) by (rule pixelUV_scale)
  then show ?thesis
    by (rule main_pixelUV) (simp_all add: u' shadow_res diskLayer_res finish_res)
qed

theorem main_resolution_invariant_witness:
  "main \<lparr>iTime = 0, iResolution = Vec3 1600 1200 1, rs = 1, camDistance = 8,
         diskInner = 1.2, diskOuter = 8\<rparr> (Vec2 801 601)
   = main \<lparr>iTime = 0, iResolution = Vec3 800 600 1, rs = 1, camDistance = 8,
           diskInner = 1.2, diskOuter = 8\<rparr> (Vec2 400.5 300.5)"
  by (rule main_resolution_invariant [where k = 2 and w = 1]) simp_all

subsection \<open>The captured branch\<close>

lemma length3_nonneg: "0 \<le> length3 a"
  by (simp add: length3_def)

lemma clamp01: "0 \<le> clamp q 0 1 \<and> clamp q 0 1 \<le> 1"
  by (simp add: clamp_def)

lemma smooth_poly_range:
  fixes t :: real
  assumes "0 \<le> t" "t \<le> 1"
  shows "0 \<le> t * t * (3 - 2 * t) \<and> t * t * (3 - 2 * t) \<le> 1"
proof
  show "0 \<le> t * t * (3 - 2 * t)" using assms by simp
  have "1 - t * t * (3 - 2 * t) = (1 - t) * (1 - t) * (1 + 2 * t)"
    by (simp add: algebra_simps)
  moreover have "0 \<le> (1 - t) * (1 - t) * (1 + 2 * t)" using assms by simp
  ultimately show "t * t * (3 - 2 * t) \<le> 1" by linarith
qed

lemma smoothstep_defined:
  assumes "edge1 \<noteq> edge0"
  shows "\<exists>s. smoothstep edge0 edge1 x = Some s \<and> 0 \<le> s \<and> s \<le> 1"
  using assms smooth_poly_range [OF clamp01 [THEN conjunct1] clamp01 [THEN conjunct2]]
  by (simp add: smoothstep_def gdiv_def Let_def)

lemma shadow_black:
  assumes "length3 (cross ro rd) < bc32 * rs u"
  shows "\<exists>a. shadow u ro rd = Some (Vec4 0 0 0 a) \<and> 0.94 \<le> a \<and> a \<le> 1"
proof -
  have "0 < bc32 * rs u"
    using assms length3_nonneg [of "cross ro rd"] by linarith
  then have "bc32 * rs u * 1.05 \<noteq> bc32 * rs u * 0.9" by simp
  from smoothstep_defined [OF this, of "length3 (cross ro rd)"]
  obtain s where s: "smoothstep (bc32 * rs u * 0.9) (bc32 * rs u * 1.05)
      (length3 (cross ro rd)) = Some s" "0 \<le> s" "s \<le> 1" by blast
  have "shadow u ro rd = Some (Vec4 0 0 0 (1 - (1 - s) * 0.06))"
    using s(1) by (simp add: shadow_def v4scale_def)
  moreover have "0.94 \<le> 1 - (1 - s) * 0.06 \<and> 1 - (1 - s) * 0.06 \<le> 1"
    using s(2,3) by simp
  ultimately show ?thesis by blast
qed

text \<open>
  C5. What the captured branch computes: for every pixel whose camera ray has an impact
  parameter below the critical value, the pixel shader is defined and its red, green and
  blue components are exactly 0, whatever the impact parameter. The smoothstep factor
  multiplies \<^verbatim>\<open>vec4(vec3(0.0), 1.0)\<close>, so it reaches the fourth component only, which
  lies between 0.94 and 1.
\<close>

theorem main_captured_black:
  assumes "pixelUV u fc = Some uv"
    and "normalize (Vec3 (v2x uv) (v2y uv) (- 1.5)) = Some rd"
    and "length3 (cross (Vec3 0 0 (camDistance u)) rd) < bc32 * rs u"
  shows "\<exists>a. main u fc = Some (Vec4 0 0 0 a) \<and> 0.94 \<le> a \<and> a \<le> 1"
proof -
  have "main u fc = shadow u (Vec3 0 0 (camDistance u)) rd"
    using assms by (simp add: main_def bendRay_def)
  then show ?thesis using shadow_black [OF assms(3)] by simp
qed

text \<open>
  A captured pixel off the centre: resolution 55 by 55, fragment \<open>(27.5, 40.5)\<close>, with
  \<open>uv = (0, 26/55)\<close>, direction \<open>(0, 52/173, -165/173)\<close> and impact parameter \<open>416/173\<close>,
  between \<open>0.9 b\<^sub>c\<close> and \<open>b\<^sub>c\<close>.
\<close>

lemma uv_edge:
  "pixelUV \<lparr>iTime = 0, iResolution = Vec3 55 55 1, rs = 1, camDistance = 8,
     diskInner = 1.2, diskOuter = 8\<rparr> (Vec2 27.5 40.5) = Some (Vec2 0 (26 / 55))"
  by (simp add: pixelUV_def gdiv_def)

lemma normalize_length:
  assumes "length3 a = l" "l \<noteq> 0"
  shows "normalize a = Some (Vec3 (vx a / l) (vy a / l) (vz a / l))"
  using assms by (simp add: normalize_def gdiv_def)

lemma rd_edge:
  "normalize (Vec3 0 (26 / 55) (- 1.5)) = Some (Vec3 0 (52 / 173) (- (165 / 173)))"
proof -
  have "sqrt (29929 / 12100) = 173 / 110"
    by (rule real_sqrt_unique) (simp_all add: power2_eq_square)
  then have len: "length3 (Vec3 0 (26 / 55) (- 1.5)) = 173 / 110"
    by (simp add: length3_def)
  show ?thesis using normalize_length [OF len] by simp
qed

lemma b_edge:
  "length3 (cross (Vec3 0 0 8) (Vec3 0 (52 / 173) (- (165 / 173)))) = 416 / 173"
proof -
  have "sqrt (173056 / 29929) = (416 / 173 :: real)"
    by (rule real_sqrt_unique) (simp_all add: power2_eq_square)
  then show ?thesis by (simp add: length3_def cross_def)
qed

theorem main_captured_black_witness:
  "\<exists>a. main \<lparr>iTime = 0, iResolution = Vec3 55 55 1, rs = 1, camDistance = 8,
         diskInner = 1.2, diskOuter = 8\<rparr> (Vec2 27.5 40.5) = Some (Vec4 0 0 0 a)
       \<and> 0.94 \<le> a \<and> a \<le> 1"
proof (rule main_captured_black [OF uv_edge])
  show "normalize (Vec3 (v2x (Vec2 0 (26 / 55))) (v2y (Vec2 0 (26 / 55))) (- 1.5))
        = Some (Vec3 0 (52 / 173) (- (165 / 173)))"
    using rd_edge by simp
  show "length3 (cross (Vec3 0 0 (camDistance \<lparr>iTime = 0, iResolution = Vec3 55 55 1,
           rs = 1, camDistance = 8, diskInner = 1.2, diskOuter = 8\<rparr>))
         (Vec3 0 (52 / 173) (- (165 / 173))))
      < bc32 * rs \<lparr>iTime = 0, iResolution = Vec3 55 55 1, rs = 1,
           camDistance = 8, diskInner = 1.2, diskOuter = 8\<rparr>"
    by (simp add: b_edge)
qed

text \<open>
  The centre pixel of the same screen has impact parameter 0 and the same colour; only
  its fourth component differs.
\<close>

lemma main_center_pixel:
  "main \<lparr>iTime = 0, iResolution = Vec3 55 55 1, rs = 1, camDistance = 8,
     diskInner = 1.2, diskOuter = 8\<rparr> (Vec2 27.5 27.5) = Some (Vec4 0 0 0 0.94)"
proof -
  let ?u = "\<lparr>iTime = 0, iResolution = Vec3 55 55 1, rs = 1, camDistance = 8,
     diskInner = 1.2, diskOuter = 8\<rparr>"
  have uv: "pixelUV ?u (Vec2 27.5 27.5) = Some (Vec2 0 0)"
    by (simp add: pixelUV_def gdiv_def)
  have "sqrt (3 / 2 * (3 / 2)) = \<bar>3 / 2 :: real\<bar>" by (rule real_sqrt_abs2)
  then have len: "length3 (Vec3 0 0 (- 1.5)) = 3 / 2" by (simp add: length3_def)
  have rd: "normalize (Vec3 0 0 (- 1.5)) = Some (Vec3 0 0 (- 1))"
    using normalize_length [OF len] by simp
  have b: "length3 (cross (Vec3 0 0 8) (Vec3 0 0 (- 1))) = 0"
    by (simp add: length3_def cross_def)
  have "main ?u (Vec2 27.5 27.5) = shadow ?u (Vec3 0 0 8) (Vec3 0 0 (- 1))"
    using uv rd b by (simp add: main_def bendRay_def)
  also have "\<dots> = Some (Vec4 0 0 0 0.94)"
    by (simp add: shadow_def b smoothstep_def gdiv_def clamp_def v4scale_def)
  finally show ?thesis .
qed

subsection \<open>The disk plane seen from the camera\<close>

lemma intersectDisk_camera:
  "intersectDisk (Vec3 0 0 cam) rd = (if vy rd + 0.000001 = 0 then None else Some None)"
  by (simp add: intersectDisk_def gdiv_def)

lemma diskLayer_camera:
  "diskLayer u (Vec3 0 0 cam) rd2 bg = Some bg"
  by (simp add: diskLayer_def intersectDisk_camera)

lemma after_bend:
  "(starfield rd2 \<bind> (\<lambda>bg. diskLayer u (Vec3 0 0 cam) rd2 bg \<bind> finish u (Vec3 0 0 cam) rd uv))
   = starfield rd2 \<bind> finish u (Vec3 0 0 cam) rd uv"
  by (cases "starfield rd2") (simp_all add: diskLayer_camera)

text \<open>
  C1. What the code does from the camera origin \<open>(0, 0, camDistance)\<close>, where the
  numerator of \<^verbatim>\<open>intersectDisk\<close> is 0. For every direction \<open>d\<close> with \<open>d.y + 1e-6 \<noteq> 0\<close> the
  quotient is 0 and \<^verbatim>\<open>intersectDisk\<close> returns no hit. At the unit direction
  \<open>(0, -1e-6, -sqrt (1 - 1e-12))\<close> the denominator is zero, the quotient is 0/0 and not 0,
  and the test \<^verbatim>\<open>t <= 0.0\<close> does not reject it. For every direction the disk layer keeps
  the background, so the pixel shader is the shader without the disk: a pixel that is
  not captured gets its colour from the starfield of the bent direction, the photon-ring
  glow, the vignette and the tone mapping alone.
\<close>

theorem main_disk_unreachable:
  "intersectDisk (Vec3 0 0 cam) d = (if vy d + 0.000001 = 0 then None else Some None) \<and>
   length3 (Vec3 0 (- 0.000001) (- sqrt (1 - 1 / 10 ^ 12))) = 1 \<and>
   intersectDisk (Vec3 0 0 8) (Vec3 0 (- 0.000001) (- sqrt (1 - 1 / 10 ^ 12))) = None \<and>
   diskLayer u (Vec3 0 0 cam) d bg = Some bg \<and>
   main u fragCoord = do {
     uv \<leftarrow> pixelUV u fragCoord;
     rd \<leftarrow> normalize (Vec3 (v2x uv) (v2y uv) (- 1.5));
     (rd2, captured) \<leftarrow> bendRay (Vec3 0 0 (camDistance u)) rd (rs u);
     if captured > 0.5 then shadow u (Vec3 0 0 (camDistance u)) rd
     else do {
       bg \<leftarrow> starfield rd2;
       finish u (Vec3 0 0 (camDistance u)) rd uv bg
     }
   }"
proof (intro conjI)
  show "intersectDisk (Vec3 0 0 cam) d = (if vy d + 0.000001 = 0 then None else Some None)"
    by (rule intersectDisk_camera)
  show "length3 (Vec3 0 (- 0.000001) (- sqrt (1 - 1 / 10 ^ 12))) = 1"
    by (simp add: length3_def)
  show "intersectDisk (Vec3 0 0 8) (Vec3 0 (- 0.000001) (- sqrt (1 - 1 / 10 ^ 12))) = None"
    by (simp add: intersectDisk_def gdiv_def)
  show "diskLayer u (Vec3 0 0 cam) d bg = Some bg"
    by (rule diskLayer_camera)
  show "main u fragCoord = do {
     uv \<leftarrow> pixelUV u fragCoord;
     rd \<leftarrow> normalize (Vec3 (v2x uv) (v2y uv) (- 1.5));
     (rd2, captured) \<leftarrow> bendRay (Vec3 0 0 (camDistance u)) rd (rs u);
     if captured > 0.5 then shadow u (Vec3 0 0 (camDistance u)) rd
     else do {
       bg \<leftarrow> starfield rd2;
       finish u (Vec3 0 0 (camDistance u)) rd uv bg
     }
   }"
    unfolding main_def Let_def after_bend ..
qed

text \<open>
  C6. The denominator \<^verbatim>\<open>rd.y + 1e-6\<close> of \<^verbatim>\<open>intersectDisk\<close> is zero for the unit
  direction \<open>(sqrt (1 - 1e-12), -1e-6, 0)\<close>: adding the constant moves the zero of the
  denominator from \<open>rd.y = 0\<close> to \<open>rd.y = -1e-6\<close>, and the quotient is undefined there.
\<close>

theorem intersectDisk_zero_denominator:
  "length3 (Vec3 (sqrt (1 - 1 / 10 ^ 12)) (- 0.000001) 0) = 1 \<and>
   vy (Vec3 (sqrt (1 - 1 / 10 ^ 12)) (- 0.000001) 0) + 0.000001 = 0 \<and>
   intersectDisk (Vec3 0 1 0) (Vec3 (sqrt (1 - 1 / 10 ^ 12)) (- 0.000001) 0) = None"
  by (simp add: length3_def intersectDisk_def gdiv_def)

subsection \<open>Gravitational redshift\<close>

lemma sqrt_small: "sqrt (1 / 10000) = (1 / 100 :: real)"
  by (rule real_sqrt_unique) (simp_all add: power2_eq_square)

lemma redshift_value:
  "redshift rs_local r = Some (sqrt (max (1 - rs_local / max r 0.001) 0.0001))"
proof -
  have "0 < max r 0.001" by (simp add: less_max_iff_disj)
  then have d: "max r 0.001 \<noteq> 0" by simp
  have "0 < max (1 - rs_local / max r 0.001) 0.0001" by (simp add: less_max_iff_disj)
  then have "\<not> max (1 - rs_local / max r 0.001) 0.0001 < 0" by simp
  with d show ?thesis by (simp add: redshift_def gdiv_def gsqrt_def)
qed

lemma redshift_bounds:
  assumes "0 < rs_local" "rs_local < r"
  shows "\<exists>f. redshift rs_local r = Some f \<and> 0.01 \<le> f \<and> f < 1"
proof -
  let ?m = "max (1 - rs_local / max r 0.001) 0.0001"
  have pos: "0 < max r 0.001" by (simp add: less_max_iff_disj)
  have "0 < rs_local / max r 0.001" using assms(1) pos by (rule divide_pos_pos)
  then have lt: "?m < 1" by simp
  have ge: "1 / 10000 \<le> ?m" by simp
  have "sqrt (1 / 10000) \<le> sqrt ?m" using ge by (simp only: real_sqrt_le_iff)
  then have "0.01 \<le> sqrt ?m" by (simp add: sqrt_small)
  moreover have "sqrt ?m < 1" using lt by (simp only: real_sqrt_lt_1_iff)
  ultimately show ?thesis unfolding redshift_value by blast
qed

lemma redshift_limit:
  "((the \<circ> redshift rs_local) \<longlongrightarrow> sqrt (max (1 - rs_local / max rs_local 0.001) 0.0001))
     (at_right rs_local)"
proof -
  have eq: "the \<circ> redshift rs_local = (\<lambda>r. sqrt (max (1 - rs_local / max r 0.001) 0.0001))"
    by (rule ext) (simp add: redshift_value)
  have "0 < max rs_local 0.001" by (simp add: less_max_iff_disj)
  then have nz: "max rs_local 0.001 \<noteq> 0" by simp
  have "isCont (\<lambda>r. sqrt (max (1 - rs_local / max r 0.001) 0.0001)) rs_local"
    using nz by (intro continuous_intros)
  then have "((\<lambda>r. sqrt (max (1 - rs_local / max r 0.001) 0.0001))
      \<longlongrightarrow> sqrt (max (1 - rs_local / max rs_local 0.001) 0.0001)) (at rs_local)"
    by (simp add: isCont_def)
  then show ?thesis
    unfolding eq by (rule tendsto_mono [OF at_le, rotated]) simp
qed

lemma redshift_limit_small:
  assumes "0.001 \<le> rs_local"
  shows "((the \<circ> redshift rs_local) \<longlongrightarrow> 0.01) (at_right rs_local)"
proof -
  have "max rs_local 0.001 = rs_local" using assms by simp
  then have "rs_local / max rs_local 0.001 = 1" using assms by simp
  then have "sqrt (max (1 - rs_local / max rs_local 0.001) 0.0001) = 0.01"
    by (simp add: sqrt_small)
  with redshift_limit [of rs_local] show ?thesis by (simp only:)
qed

text \<open>
  For \<open>rs = 1\<close> the redshift factor does not tend to 0 as \<open>r\<close> tends to \<open>rs\<close> from above:
  the clamp \<^verbatim>\<open>max(..., 0.0001)\<close> keeps it at \<open>sqrt 0.0001 = 0.01\<close>.
\<close>

theorem redshift_not_to_zero:
  "\<not> ((the \<circ> redshift 1) \<longlongrightarrow> 0) (at_right 1)"
proof
  assume a: "((the \<circ> redshift 1) \<longlongrightarrow> 0) (at_right 1)"
  have "((the \<circ> redshift 1) \<longlongrightarrow> 0.01) (at_right 1)"
    by (rule redshift_limit_small) simp
  from tendsto_unique [OF _ this a] show False by simp
qed

text \<open>
  C4, as the code has it. For \<open>rs > 0\<close> and every radius \<open>r > rs\<close> the redshift factor
  \<^verbatim>\<open>sqrt(max(1.0 - rs / max(r, 1e-3), 0.0001))\<close> is defined and lies in \<open>[0.01, 1)\<close>, so it
  is strictly between 0 and 1. As \<open>r\<close> tends to \<open>rs\<close> from above it tends to
  \<open>sqrt (max (1 - rs / max rs 0.001) 0.0001)\<close>, which is \<open>0.01\<close> whenever \<open>rs \<ge> 0.001\<close>.
\<close>

theorem redshift_range_and_limit:
  assumes "0 < rs_local"
  shows "(\<forall>r>rs_local. \<exists>f. redshift rs_local r = Some f \<and> 0.01 \<le> f \<and> f < 1) \<and>
    ((the \<circ> redshift rs_local) \<longlongrightarrow> sqrt (max (1 - rs_local / max rs_local 0.001) 0.0001))
       (at_right rs_local) \<and>
    (0.001 \<le> rs_local \<longrightarrow> ((the \<circ> redshift rs_local) \<longlongrightarrow> 0.01) (at_right rs_local))"
  using assms redshift_bounds redshift_limit redshift_limit_small by blast

theorem redshift_range_and_limit_witness:
  "(0::real) < 1 \<and> (1::real) < 2 \<and> (0.001::real) \<le> 1 \<and>
   (\<exists>f. redshift 1 2 = Some f \<and> 0.01 \<le> f \<and> f < 1) \<and>
   ((the \<circ> redshift 1) \<longlongrightarrow> 0.01) (at_right 1)"
proof -
  have h: "(0::real) < 1" by simp
  have r: "(1::real) < 2" by simp
  have s: "(0.001::real) \<le> 1" by simp
  from redshift_range_and_limit [OF h] r s show ?thesis by simp
qed

subsection \<open>Doppler factor\<close>

lemma doppler_value:
  assumes "0 \<le> v" "v \<le> 0.6" "- 1 \<le> c" "c \<le> 1"
  shows "doppler v c = Some (((1 - v * c) / sqrt (1 - v * v)) powr (- 3))"
    and "0 < (1 - v * c) / sqrt (1 - v * v)"
proof -
  have "v * v \<le> 0.6 * 0.6" using assms(1,2) by (intro mult_mono) simp_all
  then have s: "0 < 1 - v * v" by simp
  then have ss: "0 < sqrt (1 - v * v)" by simp
  have "\<bar>v * c\<bar> \<le> 0.6 * 1"
    unfolding abs_mult using assms by (intro mult_mono) simp_all
  then have n: "0 < 1 - v * c" by simp
  show q: "0 < (1 - v * c) / sqrt (1 - v * v)" using n ss by (rule divide_pos_pos)
  have "gsqrt (1 - v * v) = Some (sqrt (1 - v * v))" using s by (simp add: gsqrt_def)
  moreover have "gdiv (1 - v * c) (sqrt (1 - v * v)) = Some ((1 - v * c) / sqrt (1 - v * v))"
    using ss by (simp add: gdiv_def)
  moreover have "gpow ((1 - v * c) / sqrt (1 - v * v)) (- 3)
      = Some (((1 - v * c) / sqrt (1 - v * v)) powr (- 3))"
  proof -
    have "\<not> ((1 - v * c) / sqrt (1 - v * v) < 0
        \<or> ((1 - v * c) / sqrt (1 - v * v) = 0 \<and> (- 3 :: real) \<le> 0))"
      using q by linarith
    then show ?thesis unfolding gpow_def by (rule if_not_P)
  qed
  ultimately show "doppler v c = Some (((1 - v * c) / sqrt (1 - v * v)) powr (- 3))"
    by (simp add: doppler_def)
qed

text \<open>
  C8. For a fixed orbital speed \<open>v\<close> with \<open>0 < v \<le> 0.6\<close> the Doppler factor of the disk
  shader is defined for every \<open>cosTheta\<close> in \<open>[-1, 1]\<close>, equals
  \<open>((1 - v cosTheta) / sqrt (1 - v\<^sup>2))\<^sup>-\<^sup>3\<close>, and is strictly increasing in \<open>cosTheta\<close> there.
\<close>

theorem doppler_strict_mono:
  assumes "0 < v" "v \<le> 0.6" "- 1 \<le> c1" "c1 < c2" "c2 \<le> 1"
  shows "\<exists>D1 D2. doppler v c1 = Some D1 \<and> doppler v c2 = Some D2 \<and> D1 < D2
     \<and> D1 = 1 / ((1 - v * c1) / sqrt (1 - v * v)) ^ 3
     \<and> D2 = 1 / ((1 - v * c2) / sqrt (1 - v * v)) ^ 3"
proof -
  let ?q = "\<lambda>c. (1 - v * c) / sqrt (1 - v * v)"
  have v0: "0 \<le> v" using assms(1) by simp
  have c1: "c1 \<le> 1" and c2: "- 1 \<le> c2" using assms by simp_all
  note d1 = doppler_value [OF v0 assms(2) assms(3) c1]
  note d2 = doppler_value [OF v0 assms(2) c2 assms(5)]
  have "v * v \<le> 0.6 * 0.6" using v0 assms(2) by (intro mult_mono) simp_all
  then have ss: "0 < sqrt (1 - v * v)" by simp
  have "v * c1 < v * c2" using assms(1,4) by simp
  then have "1 - v * c2 < 1 - v * c1" by simp
  then have "?q c2 < ?q c1" using ss by (simp add: divide_strict_right_mono)
  then have lt: "?q c1 powr (- 3) < ?q c2 powr (- 3)"
    using d2(2) by (intro powr_less_mono2_neg) simp_all
  have p: "\<And>q::real. 0 < q \<Longrightarrow> q powr (- 3) = 1 / q ^ 3"
    by (simp add: powr_minus divide_inverse flip: powr_numeral)
  show ?thesis using d1 d2 lt by (simp add: p)
qed

theorem doppler_strict_mono_witness:
  "\<exists>D1 D2. doppler 0.6 (- 1) = Some D1 \<and> doppler 0.6 1 = Some D2 \<and> D1 < D2
     \<and> D1 = 1 / ((1 - 0.6 * (- 1)) / sqrt (1 - 0.6 * 0.6)) ^ 3
     \<and> D2 = 1 / ((1 - 0.6 * 1) / sqrt (1 - 0.6 * 0.6)) ^ 3"
  by (rule doppler_strict_mono) simp_all

subsection \<open>Disk shader\<close>

lemma length3_sq: "length3 a * length3 a = dot a a"
  by (simp add: length3_def dot_def)

lemma cauchy_schwarz3: "(dot a b)\<^sup>2 \<le> dot a a * dot b b"
proof -
  have "dot a a * dot b b - (dot a b)\<^sup>2 = dot (cross a b) (cross a b)"
    by (simp add: dot_def cross_def power2_eq_square algebra_simps)
  moreover have "0 \<le> dot (cross a b) (cross a b)" by (simp add: dot_def)
  ultimately show ?thesis by linarith
qed

lemma dot_unit_bound:
  assumes "length3 a = 1" "length3 b = 1"
  shows "\<bar>dot a b\<bar> \<le> 1"
proof -
  have "dot a a = 1" "dot b b = 1"
    using assms length3_sq [of a] length3_sq [of b] by simp_all
  with cauchy_schwarz3 [of a b] have "(dot a b)\<^sup>2 \<le> 1\<^sup>2" by simp
  then show ?thesis by (simp only: abs_le_square_iff [symmetric]) 
qed

lemma length3_vneg: "length3 (vneg a) = length3 a"
  by (simp add: length3_def vneg_def)

lemma normalize_unit:
  assumes "length3 a \<noteq> 0"
  shows "\<exists>n. normalize a = Some n \<and> length3 n = 1"
proof -
  define l where "l = length3 a"
  have nz: "l \<noteq> 0" using assms by (simp add: l_def)
  have e: "vx a * vx a + vy a * vy a + vz a * vz a = l * l"
    by (simp add: l_def length3_def)
  have "vx a / l * (vx a / l) + vy a / l * (vy a / l) + vz a / l * (vz a / l)
      = (vx a * vx a + vy a * vy a + vz a * vz a) / (l * l)"
    by (simp add: add_divide_distrib)
  also have "\<dots> = 1" unfolding e using nz by simp
  finally have "length3 (Vec3 (vx a / l) (vy a / l) (vz a / l)) = 1"
    by (simp add: length3_def)
  moreover have "normalize a = Some (Vec3 (vx a / l) (vy a / l) (vz a / l))"
    using nz by (intro normalize_length) (simp_all add: l_def)
  ultimately show ?thesis by blast
qed

lemma tangential_unit:
  assumes "0 < length2 (Vec2 (vx pos) (vz pos))"
  shows "\<exists>t. normalize (Vec3 (- vz pos) 0 (vx pos)) = Some t \<and> length3 t = 1"
proof -
  have "length3 (Vec3 (- vz pos) 0 (vx pos)) = length2 (Vec2 (vx pos) (vz pos))"
    by (simp add: length3_def length2_def add.commute)
  then have "length3 (Vec3 (- vz pos) 0 (vx pos)) \<noteq> 0" using assms by simp
  then show ?thesis by (rule normalize_unit)
qed

lemma mix_nonneg: "0 \<le> a \<Longrightarrow> 0 \<le> b \<Longrightarrow> 0 \<le> t \<Longrightarrow> t \<le> 1 \<Longrightarrow> 0 \<le> mix a b t"
  by (simp add: mix_def)

lemma gpow_unit:
  assumes "0 \<le> t" "t \<le> 1"
  shows "\<exists>p. gpow t 0.6 = Some p \<and> 0 \<le> p \<and> p \<le> 1"
proof -
  have "gpow t 0.6 = Some (t powr 0.6)" using assms(1) by (simp add: gpow_def)
  moreover have "t powr 0.6 \<le> 1" using assms by (intro powr_le1) simp_all
  ultimately show ?thesis by simp
qed

text \<open>
  C7. With \<open>0 < diskInner < diskOuter\<close>, a Schwarzschild radius that is not negative and a
  view direction of unit length, \<^verbatim>\<open>diskColor\<close> returns the zero colour for every point
  whose radial distance \<open>r = |pos.xz|\<close> is below \<open>diskInner\<close> or above \<open>diskOuter\<close>, and
  for every other point it is defined and all three channels of its colour are
  non-negative.
\<close>

theorem diskColor_annulus:
  assumes "0 < diskInner u" "diskInner u < diskOuter u" "0 \<le> rs u"
    and "length3 dir = 1"
  shows "(length2 (Vec2 (vx pos) (vz pos)) < diskInner u \<or>
          length2 (Vec2 (vx pos) (vz pos)) > diskOuter u
            \<longrightarrow> diskColor u pos dir = Some (Vec3 0 0 0)) \<and>
         (diskInner u \<le> length2 (Vec2 (vx pos) (vz pos)) \<and>
          length2 (Vec2 (vx pos) (vz pos)) \<le> diskOuter u
            \<longrightarrow> (\<exists>c. diskColor u pos dir = Some c \<and> 0 \<le> vx c \<and> 0 \<le> vy c \<and> 0 \<le> vz c))"
proof (intro conjI impI)
  assume "length2 (Vec2 (vx pos) (vz pos)) < diskInner u \<or>
          length2 (Vec2 (vx pos) (vz pos)) > diskOuter u"
  then show "diskColor u pos dir = Some (Vec3 0 0 0)"
    by (simp add: diskColor_def)
next
  let ?r = "length2 (Vec2 (vx pos) (vz pos))"
  assume inside: "diskInner u \<le> ?r \<and> ?r \<le> diskOuter u"
  then have rpos: "0 < ?r" using assms(1) by linarith
  have notout: "\<not> (?r < diskInner u \<or> ?r > diskOuter u)" using inside by linarith
  have q: "gdiv (rs u) (2 * ?r) = Some (rs u / (2 * ?r))" using rpos by (simp add: gdiv_def)
  have qpos: "0 \<le> rs u / (2 * ?r)" using assms(3) rpos by simp
  then have sq: "gsqrt (rs u / (2 * ?r)) = Some (sqrt (rs u / (2 * ?r)))"
    by (simp add: gsqrt_def)
  define v where "v = clamp (sqrt (rs u / (2 * ?r))) 0 0.6"
  have v: "0 \<le> v" "v \<le> 0.6" by (simp_all add: v_def clamp_def)
  from tangential_unit [OF rpos] obtain tg where
    tg: "normalize (Vec3 (- vz pos) 0 (vx pos)) = Some tg" "length3 tg = 1" by blast
  have "\<bar>dot tg (vneg dir)\<bar> \<le> 1"
    using tg(2) assms(4) by (intro dot_unit_bound) (simp_all add: length3_vneg)
  then have c: "- 1 \<le> dot tg (vneg dir)" "dot tg (vneg dir) \<le> 1" by simp_all
  define D where "D = ((1 - v * dot tg (vneg dir)) / sqrt (1 - v * v)) powr (- 3)"
  have dop: "doppler v (dot tg (vneg dir)) = Some D"
    unfolding D_def using v c by (rule doppler_value(1))
  have D: "0 \<le> D" by (simp add: D_def)
  have den: "diskOuter u - diskInner u \<noteq> 0" using assms(2) by simp
  have tq: "gdiv (diskOuter u - ?r) (diskOuter u - diskInner u)
      = Some ((diskOuter u - ?r) / (diskOuter u - diskInner u))"
    using den by (simp add: gdiv_def)
  from gpow_unit [OF clamp01 [THEN conjunct1] clamp01 [THEN conjunct2]]
  obtain pt where pt: "gpow (clamp ((diskOuter u - ?r) / (diskOuter u - diskInner u)) 0 1) 0.6 = Some pt"
    "0 \<le> pt" "pt \<le> 1" by blast
  define base where "base = vmix (Vec3 0.8 0.4 0.1) (Vec3 1 0.95 0.85) pt"
  have base: "0 \<le> vx base" "0 \<le> vy base" "0 \<le> vz base"
    using pt(2,3) by (simp_all add: base_def vmix_def mix_nonneg)
  have "diskColor u pos dir = Some (vscale (vscale base D) 0.6)"
    using notout q sq tg(1) dop [unfolded v_def] tq pt(1)
    by (simp add: diskColor_def Let_def base_def)
  moreover have "0 \<le> vx (vscale (vscale base D) 0.6)" "0 \<le> vy (vscale (vscale base D) 0.6)"
    "0 \<le> vz (vscale (vscale base D) 0.6)"
    using base D by (simp_all add: vscale_def)
  ultimately show "\<exists>c. diskColor u pos dir = Some c \<and> 0 \<le> vx c \<and> 0 \<le> vy c \<and> 0 \<le> vz c"
    by blast
qed

lemma length2_outside: "length2 (Vec2 10 0) = 10"
proof -
  have "sqrt (10 * 10) = \<bar>10 :: real\<bar>" by (rule real_sqrt_abs2)
  then show ?thesis by (simp add: length2_def)
qed

lemma length2_inside: "length2 (Vec2 3 4) = 5"
proof -
  have "sqrt (5 * 5) = \<bar>5 :: real\<bar>" by (rule real_sqrt_abs2)
  then show ?thesis by (simp add: length2_def)
qed

theorem diskColor_annulus_witness:
  "diskColor \<lparr>iTime = 0, iResolution = Vec3 800 600 1, rs = 1, camDistance = 8,
       diskInner = 1.2, diskOuter = 8\<rparr> (Vec3 10 0 0) (Vec3 0 0 (- 1)) = Some (Vec3 0 0 0) \<and>
   (\<exists>c. diskColor \<lparr>iTime = 0, iResolution = Vec3 800 600 1, rs = 1, camDistance = 8,
       diskInner = 1.2, diskOuter = 8\<rparr> (Vec3 3 0 4) (Vec3 0 0 (- 1)) = Some c \<and>
      0 \<le> vx c \<and> 0 \<le> vy c \<and> 0 \<le> vz c)"
proof -
  let ?u = "\<lparr>iTime = 0, iResolution = Vec3 800 600 1, rs = 1, camDistance = 8,
       diskInner = 1.2, diskOuter = 8\<rparr>"
  have h: "0 < diskInner ?u" "diskInner ?u < diskOuter ?u" "0 \<le> rs ?u"
    "length3 (Vec3 0 0 (- 1)) = 1"
    by (simp_all add: length3_def)
  have out: "length2 (Vec2 (vx (Vec3 10 0 0)) (vz (Vec3 10 0 0))) > diskOuter ?u"
    by (simp add: length2_outside)
  have ins: "diskInner ?u \<le> length2 (Vec2 (vx (Vec3 3 0 4)) (vz (Vec3 3 0 4))) \<and>
      length2 (Vec2 (vx (Vec3 3 0 4)) (vz (Vec3 3 0 4))) \<le> diskOuter ?u"
    by (simp add: length2_inside)
  from diskColor_annulus [OF h, of "Vec3 10 0 0"] out
  have "diskColor ?u (Vec3 10 0 0) (Vec3 0 0 (- 1)) = Some (Vec3 0 0 0)" by blast
  moreover from diskColor_annulus [OF h, of "Vec3 3 0 4"] ins
  have "\<exists>c. diskColor ?u (Vec3 3 0 4) (Vec3 0 0 (- 1)) = Some c \<and>
      0 \<le> vx c \<and> 0 \<le> vy c \<and> 0 \<le> vz c" by blast
  ultimately show ?thesis by (rule conjI)
qed

subsection \<open>Ray bending\<close>

lemma dot_cross_right: "dot (cross a b) b = 0"
  by (simp add: dot_def cross_def algebra_simps)

lemma lagrange3: "dot (cross a b) (cross a b) = dot a a * dot b b - (dot a b)\<^sup>2"
  by (simp add: dot_def cross_def power2_eq_square algebra_simps)

lemma cross_cross: "cross (cross a b) c = vadd (vscale b (dot a c)) (vneg (vscale a (dot b c)))"
  by (simp add: dot_def cross_def vadd_def vscale_def vneg_def algebra_simps)

lemma dot_vscale_left: "dot (vscale a k) b = k * dot a b"
  by (simp add: dot_def vscale_def algebra_simps)

lemma cross_vscale_left: "cross (vscale a k) b = vscale (cross a b) k"
  by (simp add: cross_def vscale_def algebra_simps)

lemma normalize_vscale:
  assumes "length3 a \<noteq> 0"
  shows "normalize a = Some (vscale a (1 / length3 a))"
  using normalize_length [OF refl assms] by (simp add: vscale_def)

lemma dot_combination:
  "dot (vadd (vscale a c) (vscale b s)) (vadd (vscale a c) (vscale b s))
     = c * c * dot a a + 2 * c * s * dot a b + s * s * dot b b"
  by (simp add: dot_def vadd_def vscale_def algebra_simps)

lemma dot_combination_left:
  "dot a (vadd (vscale a c) (vscale b s)) = c * dot a a + s * dot a b"
  by (simp add: dot_def vadd_def vscale_def algebra_simps)

lemma rotateAround_perp:
  assumes "dot axis v = 0"
  shows "rotateAround v axis angle = vadd (vscale v (cos angle)) (vscale (cross axis v) (sin angle))"
  using assms by (simp add: rotateAround_def Let_def vadd_def vscale_def)

lemma towardHole_props:
  assumes "length3 rd = 1" "0 < length3 (cross ro rd)"
  shows "dot rd (towardHole ro rd) = 0" "dot (towardHole ro rd) (towardHole ro rd) = 1"
    "dot (towardHole ro rd) (vneg ro) = length3 (cross ro rd)"
    "cross (vscale (cross ro rd) (1 / length3 (cross ro rd))) rd = towardHole ro rd"
proof -
  let ?b = "length3 (cross ro rd)"
  have dd: "dot rd rd = 1" using assms(1) length3_sq [of rd] by simp
  have bb: "?b * ?b = dot ro ro - (dot ro rd)\<^sup>2"
    using lagrange3 [of ro rd] length3_sq [of "cross ro rd"] dd by simp
  have nz: "?b \<noteq> 0" using assms(2) by simp
  let ?w = "vadd (vscale rd (dot ro rd)) (vneg ro)"
  have w1: "dot rd ?w = dot ro rd * dot rd rd - dot ro rd"
    by (simp add: dot_def vadd_def vscale_def vneg_def algebra_simps)
  then have w1': "dot rd ?w = 0" using dd by simp
  have "dot rd (towardHole ro rd) = dot rd ?w * (1 / ?b)"
    by (simp add: towardHole_def dot_def vscale_def algebra_simps)
  then show "dot rd (towardHole ro rd) = 0" using w1' by simp
  have "dot ?w ?w = (dot ro rd)\<^sup>2 * dot rd rd - 2 * (dot ro rd)\<^sup>2 + dot ro ro"
    by (simp add: dot_def vadd_def vscale_def vneg_def power2_eq_square algebra_simps)
  then have w2: "dot ?w ?w = ?b * ?b" using dd bb by simp
  have "dot (towardHole ro rd) (towardHole ro rd) = dot ?w ?w * (1 / (?b * ?b))"
    by (simp add: towardHole_def dot_def vscale_def algebra_simps)
  then show "dot (towardHole ro rd) (towardHole ro rd) = 1" using w2 nz by simp
  have "dot ?w (vneg ro) = dot ro ro - (dot ro rd)\<^sup>2"
    by (simp add: dot_def vadd_def vscale_def vneg_def power2_eq_square algebra_simps)
  then have w3: "dot ?w (vneg ro) = ?b * ?b" using bb by simp
  have "dot (towardHole ro rd) (vneg ro) = dot ?w (vneg ro) * (1 / ?b)"
    by (simp add: towardHole_def dot_def vscale_def algebra_simps)
  then show "dot (towardHole ro rd) (vneg ro) = ?b" using w3 nz by simp
  have "cross (cross ro rd) rd = ?w"
    unfolding cross_cross using dd by (simp add: vscale_def vadd_def vneg_def)
  then show "cross (vscale (cross ro rd) (1 / ?b)) rd = towardHole ro rd"
    by (simp add: cross_vscale_left towardHole_def)
qed

lemma bendRay_bent:
  assumes unit: "length3 rd = 1" and rs: "0 < rs_local"
    and far: "bc32 * rs_local \<le> length3 (cross ro rd)"
  defines "b \<equiv> length3 (cross ro rd)"
  defines "alpha \<equiv> 2 * rs_local / max b 0.00001"
  defines "rd' \<equiv> rotateAround rd (vscale (cross ro rd) (1 / b)) alpha"
  shows "bendRay ro rd rs_local = Some (rd', 0)"
    and "length3 rd' = 1"
    and "arccos (dot rd rd') = alpha"
    and "rd' = vadd (vscale rd (cos alpha)) (vscale (towardHole ro rd) (sin alpha))"
    and "0 < sin alpha"
    and "0.00001 \<le> b \<Longrightarrow> alpha = 2 * rs_local / b"
proof -
  have bc: "0 < bc32 * rs_local" using rs by simp
  then have bpos: "0 < b" using far by (simp add: b_def)
  have notcap: "\<not> b < bc32 * rs_local" using far by (simp add: b_def)
  have mpos: "0 < max b 0.00001" by (simp add: less_max_iff_disj)
  then have apos: "0 < alpha" using rs by (simp add: alpha_def)
  have "alpha \<le> 2 * rs_local / b"
    unfolding alpha_def using rs bpos by (intro divide_left_mono) simp_all
  also have "\<dots> \<le> 2 * rs_local / (bc32 * rs_local)"
    using rs bpos bc far by (intro divide_left_mono) (simp_all add: b_def)
  also have "\<dots> = 2 / bc32" using rs by simp
  also have "\<dots> < 1" by simp
  finally have a1: "alpha < 1" .
  then have api: "alpha < pi" using pi_ge_two by linarith
  show spos: "0 < sin alpha" using apos api by (rule sin_gt_zero)
  have alpha: "gdiv (2 * rs_local) (max b 0.00001) = Some alpha"
    using mpos by (simp add: gdiv_def alpha_def)
  have axis: "normalize (cross ro rd) = Some (vscale (cross ro rd) (1 / b))"
    unfolding b_def using bpos by (intro normalize_vscale) (simp add: b_def)
  show "bendRay ro rd rs_local = Some (rd', 0)"
    using notcap alpha axis by (simp add: bendRay_def Let_def b_def [symmetric] rd'_def)
  have perp: "dot (vscale (cross ro rd) (1 / b)) rd = 0"
    by (simp add: dot_vscale_left dot_cross_right)
  note tw = towardHole_props [OF unit bpos [unfolded b_def]]
  show form: "rd' = vadd (vscale rd (cos alpha)) (vscale (towardHole ro rd) (sin alpha))"
    unfolding rd'_def b_def rotateAround_perp [OF perp [unfolded b_def]] tw(4) ..
  have dd: "dot rd rd = 1" using unit length3_sq [of rd] by simp
  have "dot rd' rd' = cos alpha * cos alpha + sin alpha * sin alpha"
    unfolding form dot_combination using dd tw(1,2) by simp
  also have "\<dots> = 1" using sin_cos_squared_add3 [of alpha] by simp
  finally have "dot rd' rd' = 1" .
  then show "length3 rd' = 1" using length3_sq [of rd'] length3_nonneg [of rd']
    by (simp add: length3_def dot_def)
  have "dot rd rd' = cos alpha"
    unfolding form dot_combination_left using dd tw(1) by simp
  then show "arccos (dot rd rd') = alpha"
    using apos api by (simp add: arccos_cos)
  show "alpha = 2 * rs_local / b" if "0.00001 \<le> b"
    using that by (simp add: alpha_def max_def)
qed

text \<open>
  C2, as the code has it. Let \<open>rd\<close> have unit length, \<open>rs > 0\<close> and let the impact parameter
  \<open>b = |ro \<times> rd|\<close> be at least the shader's critical value \<open>bc32 * rs\<close> (which
  is below \<open>(3 * sqrt 3 / 2) * rs\<close>, so every \<open>b \<ge> (3 * sqrt 3 / 2) * rs\<close> is covered). Then
  \<^verbatim>\<open>bendRay\<close> returns capture 0 and a direction of unit length, obtained by rotating \<open>rd\<close>
  about \<^verbatim>\<open>normalize(cross(ro, rd))\<close> by \<open>alpha = 2 rs / max b 1e-5\<close>; the angle between \<open>rd\<close>
  and the result is \<open>alpha\<close>, which is \<open>2 rs / b\<close> whenever \<open>b \<ge> 1e-5\<close>. The result is
  \<open>cos alpha \<cdot> rd + sin alpha \<cdot> towardHole ro rd\<close> with \<open>sin alpha > 0\<close>: the ray is turned
  towards the black hole.
\<close>

theorem bendRay_deflection:
  assumes "length3 rd = 1" and "0 < rs_local"
    and "bc32 * rs_local \<le> length3 (cross ro rd)"
  shows "let b = length3 (cross ro rd); alpha = 2 * rs_local / max b 0.00001 in
     \<exists>rd' axis. bendRay ro rd rs_local = Some (rd', 0) \<and> length3 rd' = 1 \<and>
       arccos (dot rd rd') = alpha \<and>
       (0.00001 \<le> b \<longrightarrow> alpha = 2 * rs_local / b) \<and>
       normalize (cross ro rd) = Some axis \<and> rd' = rotateAround rd axis alpha \<and>
       rd' = vadd (vscale rd (cos alpha)) (vscale (towardHole ro rd) (sin alpha)) \<and>
       0 < sin alpha \<and> dot rd (towardHole ro rd) = 0 \<and> length3 (towardHole ro rd) = 1 \<and>
       dot (towardHole ro rd) (vneg ro) = b \<and> 0 < b"
proof -
  let ?b = "length3 (cross ro rd)"
  let ?alpha = "2 * rs_local / max ?b 0.00001"
  let ?axis = "vscale (cross ro rd) (1 / ?b)"
  let ?rd' = "rotateAround rd ?axis ?alpha"
  note bent = bendRay_bent [OF assms]
  have "0 < bc32 * rs_local" using assms(2) by simp
  then have bpos: "0 < ?b" using assms(3) by linarith
  note tw = towardHole_props [OF assms(1) bpos]
  have "length3 (towardHole ro rd) = sqrt (dot (towardHole ro rd) (towardHole ro rd))"
    by (simp add: length3_def dot_def)
  then have tl: "length3 (towardHole ro rd) = 1" using tw(2) by simp
  have axis: "normalize (cross ro rd) = Some ?axis"
    using bpos by (intro normalize_vscale) simp
  have "bendRay ro rd rs_local = Some (?rd', 0) \<and> length3 ?rd' = 1 \<and>
       arccos (dot rd ?rd') = ?alpha \<and>
       (0.00001 \<le> ?b \<longrightarrow> ?alpha = 2 * rs_local / ?b) \<and>
       normalize (cross ro rd) = Some ?axis \<and> ?rd' = rotateAround rd ?axis ?alpha \<and>
       ?rd' = vadd (vscale rd (cos ?alpha)) (vscale (towardHole ro rd) (sin ?alpha)) \<and>
       0 < sin ?alpha \<and> dot rd (towardHole ro rd) = 0 \<and> length3 (towardHole ro rd) = 1 \<and>
       dot (towardHole ro rd) (vneg ro) = ?b \<and> 0 < ?b"
    by (intro conjI impI bent tw(1,3) tl axis bpos refl)
  then show ?thesis unfolding Let_def by (intro exI)
qed

lemma sqrt_1024_25: "sqrt (1024 / 25) = (32 / 5 :: real)"
  by (rule real_sqrt_unique) (simp_all add: power2_eq_square)

lemma far_ray_b: "length3 (cross (Vec3 0 0 8) (Vec3 (4 / 5) 0 (- (3 / 5)))) = 32 / 5"
  using sqrt_1024_25 by (simp add: length3_def cross_def)

lemma far_ray_unit: "length3 (Vec3 (4 / 5) 0 (- (3 / 5))) = 1"
  by (simp add: length3_def)

theorem bendRay_deflection_witness:
  "length3 (Vec3 (4 / 5) 0 (- (3 / 5))) = 1 \<and> (0::real) < 1 \<and>
   bc32 * 1 \<le> length3 (cross (Vec3 0 0 8) (Vec3 (4 / 5) 0 (- (3 / 5)))) \<and>
   (\<exists>rd'. bendRay (Vec3 0 0 8) (Vec3 (4 / 5) 0 (- (3 / 5))) 1 = Some (rd', 0) \<and>
      length3 rd' = 1 \<and> arccos (dot (Vec3 (4 / 5) 0 (- (3 / 5))) rd') = 5 / 16)"
proof -
  have h1: "length3 (Vec3 (4 / 5) 0 (- (3 / 5))) = 1" by (rule far_ray_unit)
  have h2: "(0::real) < 1" by simp
  have h3: "bc32 * 1 \<le> length3 (cross (Vec3 0 0 8) (Vec3 (4 / 5) 0 (- (3 / 5))))"
    by (simp add: far_ray_b)
  from bendRay_deflection [OF h1 h2 h3]
  obtain rd' where rd': "bendRay (Vec3 0 0 8) (Vec3 (4 / 5) 0 (- (3 / 5))) 1 = Some (rd', 0)"
    "length3 rd' = 1"
    "arccos (dot (Vec3 (4 / 5) 0 (- (3 / 5))) rd') = 2 * 1 / max (32 / 5) 0.00001"
    unfolding Let_def far_ray_b by (elim exE conjE)
  have "2 * 1 / max (32 / 5) 0.00001 = (5 / 16 :: real)" by simp
  with rd'(3) have "arccos (dot (Vec3 (4 / 5) 0 (- (3 / 5))) rd') = 5 / 16" by (simp only:)
  with h1 h2 h3 rd'(1,2) show ?thesis by (intro conjI exI)
qed

lemma sqrt3_lt2: "sqrt 3 < 2"
  by (rule real_less_lsqrt) simp_all

lemma small_b: "length3 (cross (Vec3 0.000003 0 0) (Vec3 0 0 (- 1))) = 0.000003"
proof -
  have "sqrt (0.000003 * 0.000003) = \<bar>0.000003 :: real\<bar>" by (rule real_sqrt_abs2)
  then show ?thesis by (simp add: length3_def cross_def)
qed

text \<open>
  A ray with \<open>b \<ge> (3 * sqrt 3 / 2) * rs\<close> whose deflection is not \<open>2 rs / b\<close>: for
  \<open>rs = 1e-6\<close>, \<open>ro = (3e-6, 0, 0)\<close> and \<open>rd = (0, 0, -1)\<close> the impact parameter is \<open>3e-6\<close>, the
  clamp \<^verbatim>\<open>max(b, 1e-5)\<close> is active, and the ray is turned by \<open>0.2\<close> while \<open>2 rs / b = 2/3\<close>.
\<close>

theorem bendRay_small_b_angle:
  "length3 (Vec3 0 0 (- 1)) = 1 \<and>
   3 * sqrt 3 / 2 * 0.000001 \<le> length3 (cross (Vec3 0.000003 0 0) (Vec3 0 0 (- 1))) \<and>
   bendRay (Vec3 0.000003 0 0) (Vec3 0 0 (- 1)) 0.000001
     = Some (Vec3 (- sin (1 / 5)) 0 (- cos (1 / 5)), 0) \<and>
   arccos (dot (Vec3 0 0 (- 1)) (Vec3 (- sin (1 / 5)) 0 (- cos (1 / 5)))) = 1 / 5 \<and>
   2 * 0.000001 / length3 (cross (Vec3 0.000003 0 0) (Vec3 0 0 (- 1))) = 2 / 3"
proof (intro conjI)
  show u: "length3 (Vec3 0 0 (- 1)) = 1" by (simp add: length3_def)
  show "3 * sqrt 3 / 2 * 0.000001 \<le> length3 (cross (Vec3 0.000003 0 0) (Vec3 0 0 (- 1)))"
    unfolding small_b using sqrt3_lt2 by simp
  have far: "bc32 * 0.000001 \<le> length3 (cross (Vec3 0.000003 0 0) (Vec3 0 0 (- 1)))"
    unfolding small_b by simp
  have rs: "(0::real) < 0.000001" by simp
  have a: "2 * 0.000001 / max 0.000003 0.00001 = (1 / 5 :: real)" by simp
  have r: "rotateAround (Vec3 0 0 (- 1)) (vscale (cross (Vec3 0.000003 0 0) (Vec3 0 0 (- 1))) (1 / 0.000003)) (1 / 5)
     = Vec3 (- sin (1 / 5)) 0 (- cos (1 / 5))"
    by (simp add: rotateAround_def Let_def cross_def vscale_def vadd_def dot_def)
  note bent = bendRay_bent [OF u rs far, unfolded small_b a r]
  show "bendRay (Vec3 0.000003 0 0) (Vec3 0 0 (- 1)) 0.000001
     = Some (Vec3 (- sin (1 / 5)) 0 (- cos (1 / 5)), 0)" by (rule bent(1))
  show "arccos (dot (Vec3 0 0 (- 1)) (Vec3 (- sin (1 / 5)) 0 (- cos (1 / 5)))) = 1 / 5"
    by (rule bent(3))
  show "2 * 0.000001 / length3 (cross (Vec3 0.000003 0 0) (Vec3 0 0 (- 1))) = 2 / 3"
    unfolding small_b by simp
qed

end
